theory Spec2Isabelle
  imports Complex_Main "HOL-Library.Sublist"
begin

section \<open>Log analysis of the pgbench runs: the two analysis scripts\<close>

text \<open>
  The repository holds two scripts, \<^verbatim>\<open>scripts/analyze_results.py\<close> (the simple report) and
  \<^verbatim>\<open>scripts/analyze_results_improved.py\<close> (the detailed report). Both read up to six
  pgbench logs, extract figures with regular expressions and write a text report.

  Conventions of the embedding:
  \<^item> a Python \<^verbatim>\<open>str\<close> is a \<open>string\<close> (a list of 8-bit characters); the non-ASCII symbols of
    the report are their UTF-8 bytes, and the case-insensitive matching is ASCII case folding;
  \<^item> a Python \<^verbatim>\<open>int\<close> is an \<open>int\<close>;
  \<^item> a Python \<^verbatim>\<open>float\<close> is a \<open>rat\<close>: the exact value of the decimal numeral that was read,
    with exact arithmetic. Rounding to binary64, infinities and NaN are not part of the
    model, and neither is the interpreter's limit on the length of an integer numeral;
  \<^item> an exception is a value of \<open>error\<close>, and a computation that can raise returns
    \<open>error + 'a\<close>;
  \<^item> the file system, the list of files opened for reading, the pending text of the file
    open for writing and the standard output are the fields of the record \<open>world\<close>.
\<close>

subsection \<open>Exceptions\<close>

datatype error = ValueError | ZeroDivisionError | FileNotFoundError | SystemExit nat

definition bind_err :: "error + 'a \<Rightarrow> ('a \<Rightarrow> error + 'b) \<Rightarrow> error + 'b" where
  "bind_err m k = (case m of Inl e \<Rightarrow> Inl e | Inr a \<Rightarrow> k a)"

text \<open>Python's \<^verbatim>\<open>a / b\<close>: raises ZeroDivisionError when \<open>b\<close> is zero.\<close>

definition truediv :: "rat \<Rightarrow> rat \<Rightarrow> error + rat" where
  "truediv a b = (if b = 0 then Inl ZeroDivisionError else Inr (a / b))"

subsection \<open>Characters and numerals\<close>

definition NL :: string where
  "NL = [CHR 0x0A]"

definition is_digit :: "char \<Rightarrow> bool" where
  "is_digit c = (let n = (of_char c :: nat) in 48 \<le> n \<and> n \<le> 57)"

text \<open>The character class \<^verbatim>\<open>[0-9.]\<close>.\<close>

definition is_num_char :: "char \<Rightarrow> bool" where
  "is_num_char c = (is_digit c \<or> c = CHR ''.'')"

definition lower_char :: "char \<Rightarrow> char" where
  "lower_char c = (let n = (of_char c :: nat) in if 65 \<le> n \<and> n \<le> 90 then char_of (n + 32) else c)"

definition upper_char :: "char \<Rightarrow> char" where
  "upper_char c = (let n = (of_char c :: nat) in if 97 \<le> n \<and> n \<le> 122 then char_of (n - 32) else c)"

definition is_alpha :: "char \<Rightarrow> bool" where
  "is_alpha c = (let n = (of_char c :: nat) in (65 \<le> n \<and> n \<le> 90) \<or> (97 \<le> n \<and> n \<le> 122))"

definition digit_val :: "char \<Rightarrow> nat" where
  "digit_val c = of_char c - 48"

text \<open>\<^verbatim>\<open>int(s)\<close> for a string of decimal digits (what \<^verbatim>\<open>[0-9]+\<close> captures).\<close>

definition py_int :: "string \<Rightarrow> int" where
  "py_int s = foldl (\<lambda>a c. 10 * a + int (digit_val c)) 0 s"

text \<open>
  \<^verbatim>\<open>float(s)\<close> for a string over \<^verbatim>\<open>[0-9.]\<close>: digits with at most one point and at least
  one digit; anything else (\<^verbatim>\<open>"."\<close>, \<^verbatim>\<open>"1.2.3"\<close>) raises ValueError.
\<close>

definition py_float :: "string \<Rightarrow> error + rat" where
  "py_float s =
     (let ip = takeWhile is_digit s; r = dropWhile is_digit s in
      case r of
        [] \<Rightarrow> (if ip = [] then Inl ValueError else Inr (of_int (py_int ip)))
      | c # fp \<Rightarrow>
          (if c = CHR ''.'' \<and> list_all is_digit fp \<and> (ip \<noteq> [] \<or> fp \<noteq> [])
           then Inr (of_int (py_int (ip @ fp)) / 10 ^ length fp)
           else Inl ValueError))"

subsection \<open>Regular expressions of the scripts\<close>

text \<open>
  Every search pattern of the scripts has the shape \<^verbatim>\<open>pre([cls]+)suf\<close>: a literal, a
  non-empty greedy run of a character class (the group) and a literal that is empty or
  starts with a character outside the class, so that backtracking into the run cannot
  help and the run is the longest one. \<open>match_at\<close> matches at the start of the text,
  \<open>re_search\<close> is \<^verbatim>\<open>re.search\<close>: the group of the leftmost match.
\<close>

definition match_at :: "string \<Rightarrow> (char \<Rightarrow> bool) \<Rightarrow> string \<Rightarrow> string \<Rightarrow> string option" where
  "match_at pre cls suf s =
     (if prefix pre s then
        (let rest = drop (length pre) s; g = takeWhile cls rest in
         if g \<noteq> [] \<and> prefix suf (dropWhile cls rest) then Some g else None)
      else None)"

fun re_search :: "string \<Rightarrow> (char \<Rightarrow> bool) \<Rightarrow> string \<Rightarrow> string \<Rightarrow> string option" where
  "re_search pre cls suf [] = match_at pre cls suf []"
| "re_search pre cls suf (c # cs) =
     (case match_at pre cls suf (c # cs) of
        Some g \<Rightarrow> Some g
      | None \<Rightarrow> re_search pre cls suf cs)"

text \<open>\<^verbatim>\<open>float(m.group(1)) if m else 0\<close> and \<^verbatim>\<open>int(m.group(1)) if m else 0\<close>.\<close>

definition float_or_zero :: "string option \<Rightarrow> error + rat" where
  "float_or_zero m = (case m of None \<Rightarrow> Inr 0 | Some g \<Rightarrow> py_float g)"

definition int_or_zero :: "string option \<Rightarrow> int" where
  "int_or_zero m = (case m of None \<Rightarrow> 0 | Some g \<Rightarrow> py_int g)"

text \<open>\<^verbatim>\<open>sub in s\<close> on strings.\<close>

fun contains :: "string \<Rightarrow> string \<Rightarrow> bool" where
  "contains sub [] = (sub = [])"
| "contains sub (c # cs) = (prefix sub (c # cs) \<or> contains sub cs)"

text \<open>
  \<^verbatim>\<open>len(re.findall(alt1|alt2, s))\<close> for non-empty literal alternatives: scanning from the
  left, the first alternative that matches at the position is taken and the scan goes on
  behind it; where none matches it moves one character on.
\<close>

function findall_count :: "string list \<Rightarrow> string \<Rightarrow> nat" where
  "findall_count alts s =
     (if s = [] then 0
      else (case find (\<lambda>a. prefix a s) alts of
              Some a \<Rightarrow> Suc (findall_count alts (drop (max 1 (length a)) s))
            | None \<Rightarrow> findall_count alts (tl s)))"
  by pat_completeness auto
termination
  by (relation "measure (\<lambda>(alts, s). length s)") (auto simp: neq_Nil_conv)

declare findall_count.simps [simp del]

text \<open>With \<^verbatim>\<open>re.IGNORECASE\<close>: the alternatives are lower case, the text is folded.\<close>

definition findall_count_ignorecase :: "string list \<Rightarrow> string \<Rightarrow> nat" where
  "findall_count_ignorecase alts s = findall_count alts (map lower_char s)"

subsection \<open>The detailed parser: \<^verbatim>\<open>parse_pgbench_output_detailed\<close>\<close>

record detailed_result =
  tps :: rat
  latency :: rat
  latency_stddev :: rat
  performance_consistency :: string
  total_transactions_attempted :: int
  transactions_processed :: int
  success_rate :: rat
  error_rate :: rat
  connection_rejections :: int
  timeout_rate :: rat
  error_types :: "(string \<times> int) list"
  has_critical_errors :: bool
  has_timeouts :: bool
  clients :: int
  transactions_per_client :: int
  raw_content :: string

text \<open>
  Lines 38 to 109 of the function, from the extracted figures and the six error counts
  (in the order of the dictionary \<^verbatim>\<open>error_types\<close>) to the returned dictionary. Every
  division goes through \<open>truediv\<close>.
\<close>

definition evaluate_metrics ::
  "rat \<Rightarrow> rat \<Rightarrow> rat \<Rightarrow> int \<Rightarrow> int \<Rightarrow> int \<Rightarrow>
   int \<Rightarrow> int \<Rightarrow> int \<Rightarrow> int \<Rightarrow> int \<Rightarrow> int \<Rightarrow> string \<Rightarrow> error + detailed_result" where
  "evaluate_metrics tps_v latency_v latency_stddev_v clients_v transactions_per_client_v
     transactions_processed_v connection_refused too_many_clients timeout_errors
     authentication_failed fatal_errors generic_errors content =
   (let total = clients_v * transactions_per_client_v in
    bind_err
      (if total > 0
       then bind_err (truediv (of_int transactions_processed_v) (of_int total)) (\<lambda>q. Inr (q * 100))
       else Inr 0)
      (\<lambda>success_rate_v.
    let total_connection_rejections = connection_refused + too_many_clients;
        critical = (connection_refused > 0 \<or> too_many_clients > 0 \<or> fatal_errors > 0
                    \<or> success_rate_v < 95);
        timeouts = (timeout_errors > 0 \<or> contains ''timeout'' (map lower_char content))
    in
    bind_err
      (if latency_stddev_v > 0 \<and> latency_v > 0
       then bind_err (truediv latency_stddev_v latency_v)
              (\<lambda>q. let cv = q * 100 in
                    Inr (if cv > 50 then ''Poor'' else if cv > 25 then ''Fair'' else ''Good''))
       else Inr ''Good'')
      (\<lambda>consistency.
    bind_err (truediv (of_int timeout_errors) (of_int (max 1 total)))
      (\<lambda>tq.
    Inr \<lparr> tps = tps_v,
          latency = latency_v,
          latency_stddev = latency_stddev_v,
          performance_consistency = consistency,
          total_transactions_attempted = total,
          transactions_processed = transactions_processed_v,
          success_rate = success_rate_v,
          error_rate = 100 - success_rate_v,
          connection_rejections = total_connection_rejections,
          timeout_rate = tq * 100,
          error_types =
            [(''connection_refused'', connection_refused),
             (''too_many_clients'', too_many_clients),
             (''timeout_errors'', timeout_errors),
             (''authentication_failed'', authentication_failed),
             (''fatal_errors'', fatal_errors),
             (''generic_errors'', generic_errors)],
          has_critical_errors = critical,
          has_timeouts = timeouts,
          clients = clients_v,
          transactions_per_client = transactions_per_client_v,
          raw_content = content \<rparr>))))"

text \<open>
  The function on the text of an existing file: lines 16 to 58 extract the figures and
  count the error signatures, in the order of the source (a ValueError of an earlier
  \<^verbatim>\<open>float\<close> wins).
\<close>

definition parse_detailed_content :: "string \<Rightarrow> error + detailed_result" where
  "parse_detailed_content content =
     bind_err (float_or_zero (re_search ''tps = '' is_num_char [] content)) (\<lambda>tps_v.
     bind_err (float_or_zero (re_search ''latency average = '' is_num_char '' ms'' content)) (\<lambda>latency_v.
     bind_err (float_or_zero (re_search ''latency stddev = '' is_num_char '' ms'' content)) (\<lambda>latency_stddev_v.
     let scaling_factor = int_or_zero (re_search ''scaling factor: '' is_digit [] content);
         clients_v = int_or_zero (re_search ''number of clients: '' is_digit [] content);
         transactions_per_client_v =
           int_or_zero (re_search ''number of transactions per client: '' is_digit [] content);
         transactions_processed_v =
           int_or_zero (re_search ''number of transactions actually processed: '' is_digit [] content)
     in evaluate_metrics tps_v latency_v latency_stddev_v clients_v transactions_per_client_v
          transactions_processed_v
          (int (findall_count_ignorecase [''connection refused'', ''could not connect''] content))
          (int (findall_count_ignorecase [''too many clients'', ''connection limit''] content))
          (int (findall_count_ignorecase [''timeout'', ''timed out''] content))
          (int (findall_count_ignorecase [''authentication failed'', ''password authentication''] content))
          (int (findall_count [''FATAL:''] content))
          (int (findall_count [''ERROR:''] content))
          content)))"

subsection \<open>Formatting\<close>

definition digit_char :: "nat \<Rightarrow> char" where
  "digit_char d = char_of (48 + d)"

text \<open>\<^verbatim>\<open>str(n)\<close> for a natural number, and for an integer.\<close>

fun str_nat :: "nat \<Rightarrow> string" where
  "str_nat n = (if n < 10 then [digit_char n] else str_nat (n div 10) @ [digit_char (n mod 10)])"

declare str_nat.simps [simp del]

definition str_int :: "int \<Rightarrow> string" where
  "str_int i = (if i < 0 then ''-'' @ str_nat (nat (- i)) else str_nat (nat i))"

text \<open>
  The format specification \<^verbatim>\<open>.nf\<close>: the value rounded to \<open>n\<close> decimals, ties to the even
  neighbour; a negative value keeps its sign also when it rounds to zero. \<^verbatim>\<open>+.nf\<close> writes
  the sign of a value that is not negative as well.
\<close>

definition round_half_even :: "rat \<Rightarrow> int" where
  "round_half_even x =
     (let f = \<lfloor>x\<rfloor>; d = x - of_int f in
      if d < 1 / 2 then f else if d > 1 / 2 then f + 1 else if even f then f else f + 1)"

definition pad_zeros :: "nat \<Rightarrow> string \<Rightarrow> string" where
  "pad_zeros n ds = replicate (n - length ds) (CHR ''0'') @ ds"

definition format_f :: "nat \<Rightarrow> rat \<Rightarrow> string" where
  "format_f n x =
     (let m = nat (round_half_even (\<bar>x\<bar> * 10 ^ n)) in
      (if x < 0 then ''-'' else []) @ str_nat (m div 10 ^ n) @
      (if n = 0 then [] else ''.'' @ pad_zeros n (str_nat (m mod 10 ^ n))))"

definition format_plus_f :: "nat \<Rightarrow> rat \<Rightarrow> string" where
  "format_plus_f n x = (if x < 0 then format_f n x else ''+'' @ format_f n x)"

text \<open>\<^verbatim>\<open>s.upper()\<close>, \<^verbatim>\<open>s.title()\<close> and \<^verbatim>\<open>s.replace('_', ' ')\<close> on ASCII text.\<close>

definition upper :: "string \<Rightarrow> string" where
  "upper s = map upper_char s"

fun title_from :: "bool \<Rightarrow> string \<Rightarrow> string" where
  "title_from prev_cased [] = []"
| "title_from prev_cased (c # cs) =
     (if is_alpha c
      then (if prev_cased then lower_char c else upper_char c) # title_from True cs
      else c # title_from False cs)"

definition title :: "string \<Rightarrow> string" where
  "title s = title_from False s"

definition replace_underscores :: "string \<Rightarrow> string" where
  "replace_underscores s = map (\<lambda>c. if c = CHR ''_'' then CHR '' '' else c) s"

text \<open>The two symbols of the detailed report, as UTF-8.\<close>

definition check_mark :: string where
  "check_mark = [CHR 0xE2, CHR 0x9C, CHR 0x85]"

definition warning_sign :: string where
  "warning_sign = [CHR 0xE2, CHR 0x9A, CHR 0xA0, CHR 0xEF, CHR 0xB8, CHR 0x8F]"

subsection \<open>The reliability section: \<^verbatim>\<open>generate_reliability_report\<close>\<close>

text \<open>Lines 136 to 140: the categories with a positive count, in the dictionary's order.\<close>

definition error_breakdown :: "(string \<times> int) list \<Rightarrow> string" where
  "error_breakdown ets =
     (if list_ex (\<lambda>(error_type, n). n > 0) ets
      then ''  Error Breakdown:'' @ NL @
           concat (map (\<lambda>(error_type, n).
                     if n > 0
                     then ''    '' @ title (replace_underscores error_type) @ '': '' @ str_int n @ NL
                     else []) ets)
      else [])"

text \<open>Lines 147 to 155: the overall assessment.\<close>

definition overall_assessment :: "detailed_result \<Rightarrow> string" where
  "overall_assessment result =
     (if has_critical_errors result
      then ''  '' @ warning_sign @ ''  CRITICAL ERRORS DETECTED'' @ NL
      else if success_rate result \<ge> 99
      then ''  '' @ check_mark @ '' EXCELLENT RELIABILITY'' @ NL
      else if success_rate result \<ge> 95
      then ''  '' @ check_mark @ '' GOOD RELIABILITY'' @ NL
      else ''  '' @ warning_sign @ ''  POOR RELIABILITY'' @ NL)"

text \<open>The body of the loop over the two connection types (lines 117 to 155).\<close>

definition reliability_block :: "string \<Rightarrow> detailed_result option \<Rightarrow> string" where
  "reliability_block connection_type r =
     (case r of
        None \<Rightarrow> title connection_type @ '': NO DATA'' @ NL
      | Some result \<Rightarrow>
          NL @ title connection_type @ '' Connection:'' @ NL @
          ''  Success Rate: '' @ format_f 1 (success_rate result) @ ''%'' @ NL @
          ''  Error Rate: '' @ format_f 1 (error_rate result) @ ''%'' @ NL @
          ''  Transactions: '' @ str_int (transactions_processed result) @ ''/'' @
             str_int (total_transactions_attempted result) @ NL @
          (if connection_rejections result > 0
           then ''  Connection Rejections: '' @ str_int (connection_rejections result) @ NL
           else []) @
          (if timeout_rate result > 0
           then ''  Timeout Rate: '' @ format_f 1 (timeout_rate result) @ ''%'' @ NL
           else []) @
          error_breakdown (error_types result) @
          ''  Performance Consistency: '' @ performance_consistency result @ NL @
          (if latency_stddev result > 0
           then ''  Latency Std Dev: '' @ format_f 2 (latency_stddev result) @ ''ms'' @ NL
           else []) @
          overall_assessment result)"

text \<open>The text the function writes to the report file.\<close>

definition generate_reliability_report ::
  "(string \<times> detailed_result option) list \<Rightarrow> string \<Rightarrow> string" where
  "generate_reliability_report results test_name =
     NL @ upper test_name @ '' - RELIABILITY METRICS'' @ NL @
     replicate 40 (CHR ''-'') @ NL @
     concat (map (\<lambda>(connection_type, r). reliability_block connection_type r) results)"

subsection \<open>The simple parser: \<^verbatim>\<open>parse_pgbench_output\<close>\<close>

record simple_result =
  s_tps :: rat
  s_latency :: rat
  s_has_errors :: bool
  s_content :: string

text \<open>The function on the text of an existing file (lines 16 to 33).\<close>

definition parse_simple_content :: "string \<Rightarrow> error + simple_result" where
  "parse_simple_content content =
     bind_err (float_or_zero (re_search ''tps = '' is_num_char [] content)) (\<lambda>tps_v.
     bind_err (float_or_zero (re_search ''latency average = '' is_num_char '' ms'' content)) (\<lambda>latency_v.
     Inr \<lparr> s_tps = tps_v,
           s_latency = latency_v,
           s_has_errors =
             list_ex (\<lambda>keyword. contains keyword content)
               [''FATAL'', ''ERROR'', ''failed'', ''connection refused''],
           s_content = content \<rparr>))"

subsection \<open>Files and output\<close>

text \<open>
  \<open>files\<close> maps a path to the text of the file, \<open>opened\<close> lists the paths opened for
  reading in the order of the calls of \<^verbatim>\<open>open\<close>, \<open>wbuf\<close> is the text written so far to
  the file open for writing (a script has at most one), \<open>stdout\<close> is what was printed.
\<close>

record world =
  files :: "string \<Rightarrow> string option"
  opened :: "string list"
  wbuf :: string
  stdout :: string

definition return_io :: "'a \<Rightarrow> world \<Rightarrow> (error + 'a) \<times> world" where
  "return_io a w = (Inr a, w)"

definition lift_err :: "error + 'a \<Rightarrow> world \<Rightarrow> (error + 'a) \<times> world" where
  "lift_err r w = (r, w)"

definition bind_io ::
  "(world \<Rightarrow> (error + 'a) \<times> world) \<Rightarrow> ('a \<Rightarrow> world \<Rightarrow> (error + 'b) \<times> world) \<Rightarrow>
   world \<Rightarrow> (error + 'b) \<times> world" where
  "bind_io m k w = (case m w of (Inl e, w') \<Rightarrow> (Inl e, w') | (Inr a, w') \<Rightarrow> k a w')"

text \<open>\<^verbatim>\<open>f.write(s)\<close> and \<^verbatim>\<open>print(s)\<close>.\<close>

definition f_write :: "string \<Rightarrow> world \<Rightarrow> (error + unit) \<times> world" where
  "f_write s w = (Inr (), w\<lparr>wbuf := wbuf w @ s\<rparr>)"

definition py_print :: "string \<Rightarrow> world \<Rightarrow> (error + unit) \<times> world" where
  "py_print s w = (Inr (), w\<lparr>stdout := stdout w @ s @ NL\<rparr>)"

text \<open>
  \<^verbatim>\<open>with open(path, 'w') as f: body\<close>: the file is truncated when it is opened and holds
  what was written when the block is left, also when the block is left by an exception.
\<close>

definition with_open_w ::
  "string \<Rightarrow> (world \<Rightarrow> (error + unit) \<times> world) \<Rightarrow> world \<Rightarrow> (error + unit) \<times> world" where
  "with_open_w path body w =
     (case body (w\<lparr>files := (files w)(path \<mapsto> []), wbuf := []\<rparr>) of
        (r, w') \<Rightarrow> (r, w'\<lparr>files := (files w')(path \<mapsto> wbuf w')\<rparr>))"

text \<open>\<^verbatim>\<open>with open(path, 'r') as f: f.read()\<close>.\<close>

definition read_file :: "string \<Rightarrow> world \<Rightarrow> (error + string) \<times> world" where
  "read_file path w =
     (case files w path of
        None \<Rightarrow> (Inl FileNotFoundError, w)
      | Some text \<Rightarrow> (Inr text, w\<lparr>opened := opened w @ [path]\<rparr>))"

text \<open>
  The two parsers on a path: \<^verbatim>\<open>None\<close> without opening anything when the file does not
  exist, otherwise the file is read and its text parsed.
\<close>

definition parse_pgbench_output ::
  "string \<Rightarrow> world \<Rightarrow> (error + simple_result option) \<times> world" where
  "parse_pgbench_output filename w =
     (case files w filename of
        None \<Rightarrow> (Inr None, w)
      | Some t \<Rightarrow>
          bind_io (read_file filename)
            (\<lambda>content. lift_err (bind_err (parse_simple_content content) (\<lambda>r. Inr (Some r)))) w)"

definition parse_pgbench_output_detailed ::
  "string \<Rightarrow> world \<Rightarrow> (error + detailed_result option) \<times> world" where
  "parse_pgbench_output_detailed filename w =
     (case files w filename of
        None \<Rightarrow> (Inr None, w)
      | Some t \<Rightarrow>
          bind_io (read_file filename)
            (\<lambda>content. lift_err (bind_err (parse_detailed_content content) (\<lambda>r. Inr (Some r)))) w)"

text \<open>The dictionary \<^verbatim>\<open>tests\<close> of both scripts: scenario, direct log, pooled log.\<close>

definition log_path :: "string \<Rightarrow> string \<Rightarrow> string \<Rightarrow> string \<Rightarrow> string" where
  "log_path results_dir strategy scenario timestamp =
     results_dir @ ''/'' @ strategy @ ''_'' @ scenario @ ''_'' @ timestamp @ ''.log''"

definition tests :: "string \<Rightarrow> string \<Rightarrow> (string \<times> string \<times> string) list" where
  "tests results_dir timestamp =
     [(''overhead'', log_path results_dir ''direct'' ''overhead'' timestamp,
                     log_path results_dir ''pgbouncer'' ''overhead'' timestamp),
      (''concurrent'', log_path results_dir ''direct'' ''concurrent'' timestamp,
                       log_path results_dir ''pgbouncer'' ''concurrent'' timestamp),
      (''extreme'', log_path results_dir ''direct'' ''extreme'' timestamp,
                    log_path results_dir ''pgbouncer'' ''extreme'' timestamp)]"

text \<open>A \<^verbatim>\<open>for\<close> loop whose body can raise.\<close>

fun for_each ::
  "('a \<Rightarrow> world \<Rightarrow> (error + unit) \<times> world) \<Rightarrow> 'a list \<Rightarrow> world \<Rightarrow> (error + unit) \<times> world" where
  "for_each body [] = return_io ()"
| "for_each body (x # xs) = bind_io (body x) (\<lambda>_. for_each body xs)"

subsection \<open>The simple report: \<^verbatim>\<open>main\<close> of \<^verbatim>\<open>analyze_results.py\<close>\<close>

text \<open>The test \<^verbatim>\<open>r and not r['has_errors']\<close>: the result when it holds.\<close>

definition without_errors :: "simple_result option \<Rightarrow> simple_result option" where
  "without_errors r =
     (case r of None \<Rightarrow> None | Some d \<Rightarrow> if s_has_errors d then None else Some d)"

text \<open>
  The two lines of figures of a connection without errors (lines 75 and 76 for the direct
  connection, 82 and 83 for the pooled one).
\<close>

definition tps_line :: "rat \<Rightarrow> string" where
  "tps_line x = ''  TPS: '' @ format_f 2 x @ NL"

definition latency_line :: "rat \<Rightarrow> string" where
  "latency_line x = ''  Latency: '' @ format_f 2 x @ '' ms'' @ NL"

text \<open>
  The two improvement lines (lines 88, 89 and 92, 93), from the quotient of the pooled by
  the direct figure, and the latency line of the key findings (line 110), from the
  quotient \<^verbatim>\<open>1/latency_ratio\<close>.
\<close>

definition tps_improvement_line :: "rat \<Rightarrow> string" where
  "tps_improvement_line q = ''  TPS Improvement: '' @ format_plus_f 1 ((q - 1) * 100) @ ''%'' @ NL"

definition latency_improvement_line :: "rat \<Rightarrow> string" where
  "latency_improvement_line q =
     ''  Latency Improvement: '' @ format_plus_f 1 ((1 - q) * 100) @ ''%'' @ NL"

definition latency_reduction_line :: "rat \<Rightarrow> string" where
  "latency_reduction_line q =
     ''- PgBouncer reduced latency by '' @ format_f 0 ((1 - q) * 100) @ ''%'' @ NL"

text \<open>The body of the loop over the three tests (lines 67 to 95).\<close>

definition test_section :: "string \<times> string \<times> string \<Rightarrow> world \<Rightarrow> (error + unit) \<times> world" where
  "test_section t =
     (case t of (test_name, direct_file, pgbouncer_file) \<Rightarrow>
      bind_io (f_write (NL @ upper test_name @ '' TEST RESULTS'' @ NL)) (\<lambda>_.
      bind_io (f_write (replicate 30 (CHR ''-'') @ NL)) (\<lambda>_.
      bind_io (parse_pgbench_output direct_file) (\<lambda>direct_result.
      bind_io (parse_pgbench_output pgbouncer_file) (\<lambda>pgbouncer_result.
      bind_io
        (case without_errors direct_result of
           Some d \<Rightarrow>
             bind_io (f_write (''Direct Connection:'' @ NL)) (\<lambda>_.
             bind_io (f_write (tps_line (s_tps d))) (\<lambda>_.
             f_write (latency_line (s_latency d))))
         | None \<Rightarrow> f_write (''Direct Connection: FAILED or ERRORS'' @ NL)) (\<lambda>_.
      (case without_errors pgbouncer_result of
         Some p \<Rightarrow>
           bind_io (f_write (''PgBouncer Connection:'' @ NL)) (\<lambda>_.
           bind_io (f_write (tps_line (s_tps p))) (\<lambda>_.
           bind_io (f_write (latency_line (s_latency p))) (\<lambda>_.
           (case without_errors direct_result of
              Some d \<Rightarrow>
                bind_io
                  (if s_tps d > 0
                   then bind_io (lift_err (truediv (s_tps p) (s_tps d))) (\<lambda>q.
                        f_write (tps_improvement_line q))
                   else return_io ()) (\<lambda>_.
                (if s_latency d > 0
                 then bind_io (lift_err (truediv (s_latency p) (s_latency d))) (\<lambda>q.
                      f_write (latency_improvement_line q))
                 else return_io ()))
            | None \<Rightarrow> return_io ()))))
       | None \<Rightarrow> f_write (''PgBouncer Connection: FAILED or ERRORS'' @ NL))))))))"

text \<open>
  The key findings (lines 97 to 124). The overhead and the extreme logs are parsed again
  here. The two ratios of lines 105 and 106 and the quotient \<^verbatim>\<open>1/latency_ratio\<close> of line
  110 are divisions without a test of the divisor.
\<close>

definition key_findings :: "string \<Rightarrow> string \<Rightarrow> world \<Rightarrow> (error + unit) \<times> world" where
  "key_findings results_dir timestamp =
     bind_io (f_write (NL @ NL @ ''KEY FINDINGS'' @ NL)) (\<lambda>_.
     bind_io (f_write (replicate 20 (CHR ''-'') @ NL)) (\<lambda>_.
     bind_io (parse_pgbench_output (log_path results_dir ''direct'' ''overhead'' timestamp)) (\<lambda>overhead_direct.
     bind_io (parse_pgbench_output (log_path results_dir ''pgbouncer'' ''overhead'' timestamp)) (\<lambda>overhead_pgbouncer.
     bind_io
       (case (without_errors overhead_direct, without_errors overhead_pgbouncer) of
          (Some d, Some p) \<Rightarrow>
            bind_io (lift_err (truediv (s_tps p) (s_tps d))) (\<lambda>tps_ratio.
            bind_io (lift_err (truediv (s_latency d) (s_latency p))) (\<lambda>latency_ratio.
            bind_io (f_write (''Connection Overhead Test (20 clients, new connection per transaction):'' @ NL)) (\<lambda>_.
            bind_io (f_write (''- PgBouncer achieved '' @ format_f 1 tps_ratio @
                              ''x the throughput of direct connections'' @ NL)) (\<lambda>_.
            bind_io (lift_err (truediv 1 latency_ratio)) (\<lambda>inverse.
            bind_io (f_write (latency_reduction_line inverse)) (\<lambda>_.
            f_write (''- This demonstrates the massive overhead of connection establishment'' @ NL @ NL)))))))
        | _ \<Rightarrow> return_io ()) (\<lambda>_.
     bind_io (parse_pgbench_output (log_path results_dir ''direct'' ''extreme'' timestamp)) (\<lambda>extreme_direct.
     bind_io (parse_pgbench_output (log_path results_dir ''pgbouncer'' ''extreme'' timestamp)) (\<lambda>extreme_pgbouncer.
     (case extreme_direct of
        None \<Rightarrow> return_io ()
      | Some d \<Rightarrow>
          if s_has_errors d
          then bind_io (f_write (''High Concurrency Test (1000 clients):'' @ NL)) (\<lambda>_.
               bind_io (f_write (''- Direct connections FAILED as expected (connection limit exceeded)'' @ NL)) (\<lambda>_.
               bind_io
                 (case without_errors extreme_pgbouncer of
                    Some p \<Rightarrow>
                      bind_io (f_write (''- PgBouncer successfully handled all 1000 clients'' @ NL)) (\<lambda>_.
                      f_write (''- Achieved '' @ format_f 0 (s_tps p) @
                               '' TPS with 1000 concurrent clients'' @ NL))
                  | None \<Rightarrow> return_io ()) (\<lambda>_.
               f_write (''- This demonstrates PgBouncer's ability to handle connection multiplexing''
                        @ NL @ NL))))
          else return_io ()))))))))"

text \<open>The block under \<^verbatim>\<open>with open(summary_file, 'w') as f\<close> (lines 62 to 131).\<close>

definition summary_body :: "string \<Rightarrow> string \<Rightarrow> string \<Rightarrow> world \<Rightarrow> (error + unit) \<times> world" where
  "summary_body results_dir timestamp now =
     bind_io (f_write (''PgBouncer Performance Test Results'' @ NL)) (\<lambda>_.
     bind_io (f_write (replicate 50 (CHR ''='') @ NL)) (\<lambda>_.
     bind_io (f_write (''Generated: '' @ now @ NL @ NL)) (\<lambda>_.
     bind_io (for_each test_section (tests results_dir timestamp)) (\<lambda>_.
     bind_io (key_findings results_dir timestamp) (\<lambda>_.
     bind_io (f_write (''CONCLUSION:'' @ NL)) (\<lambda>_.
     bind_io (f_write (''PgBouncer provides significant benefits:'' @ NL)) (\<lambda>_.
     bind_io (f_write (''1. Eliminates connection establishment overhead'' @ NL)) (\<lambda>_.
     bind_io (f_write (''2. Enables high concurrency beyond database limits'' @ NL)) (\<lambda>_.
     bind_io (f_write (''3. Improves both throughput and latency'' @ NL)) (\<lambda>_.
     f_write (''4. Provides reliable connection pooling and queuing'' @ NL)))))))))))"

text \<open>
  \<^verbatim>\<open>main\<close>: \<open>argv\<close> is \<^verbatim>\<open>sys.argv\<close> and \<open>now\<close> the text of
  \<^verbatim>\<open>datetime.now().strftime('%Y-%m-%d %H:%M:%S')\<close>.
\<close>

definition summary_path :: "string \<Rightarrow> string \<Rightarrow> string" where
  "summary_path results_dir timestamp = results_dir @ ''/summary_'' @ timestamp @ ''.txt''"

definition analyze_results_main :: "string list \<Rightarrow> string \<Rightarrow> world \<Rightarrow> (error + unit) \<times> world" where
  "analyze_results_main argv now =
     (if length argv < 3
      then bind_io (py_print ''Usage: python3 analyze_results.py <results_dir> <timestamp>'') (\<lambda>_.
           lift_err (Inl (SystemExit 1)))
      else
        (let results_dir = argv ! 1; timestamp = argv ! 2;
             summary_file = summary_path results_dir timestamp in
         bind_io (with_open_w summary_file (summary_body results_dir timestamp now)) (\<lambda>_.
         bind_io (py_print (''Analysis complete! Summary saved to: '' @ summary_file)) (\<lambda>_.
         bind_io (read_file summary_file) (\<lambda>text.
         py_print (NL @ text))))))"

subsection \<open>The detailed report: \<^verbatim>\<open>main\<close> of \<^verbatim>\<open>analyze_results_improved.py\<close>\<close>

text \<open>Lines 196 to 201: all six logs are parsed first, in the order of \<open>tests\<close>.\<close>

fun parse_all ::
  "(string \<times> string \<times> string) list \<Rightarrow> world \<Rightarrow>
   (error + (string \<times> detailed_result option \<times> detailed_result option) list) \<times> world" where
  "parse_all [] = return_io []"
| "parse_all ((test_name, direct_file, pgbouncer_file) # ts) =
     bind_io (parse_pgbench_output_detailed direct_file) (\<lambda>d.
     bind_io (parse_pgbench_output_detailed pgbouncer_file) (\<lambda>p.
     bind_io (parse_all ts) (\<lambda>rest.
     return_io ((test_name, d, p) # rest))))"

text \<open>Lines 211 to 215: one line of the performance summary.\<close>

definition performance_summary_line :: "string \<Rightarrow> detailed_result option \<Rightarrow> string" where
  "performance_summary_line conn_type r =
     (case r of
        None \<Rightarrow> title conn_type @ '': FAILED or POOR RELIABILITY'' @ NL
      | Some result \<Rightarrow>
          if success_rate result \<ge> 95
          then title conn_type @ '': '' @ format_f 1 (tps result) @ '' TPS, '' @
               format_f 1 (latency result) @ ''ms avg'' @ NL
          else title conn_type @ '': FAILED or POOR RELIABILITY'' @ NL)"

definition performance_summary ::
  "string \<times> detailed_result option \<times> detailed_result option \<Rightarrow> string" where
  "performance_summary t =
     (case t of (test_name, d, p) \<Rightarrow>
      NL @ upper test_name @ '' TEST'' @ NL @ replicate 20 (CHR ''-'') @ NL @
      performance_summary_line ''direct'' d @ performance_summary_line ''pgbouncer'' p)"

text \<open>Lines 228 to 239: the comparison of one test.\<close>

definition comparison :: "string \<times> detailed_result option \<times> detailed_result option \<Rightarrow> string" where
  "comparison t =
     (case t of
        (test_name, Some direct, Some pgbouncer) \<Rightarrow>
          NL @ title test_name @ '' Test Comparison:'' @ NL @
          ''  Direct Success Rate: '' @ format_f 1 (success_rate direct) @ ''%'' @ NL @
          ''  PgBouncer Success Rate: '' @ format_f 1 (success_rate pgbouncer) @ ''%'' @ NL @
          ''  Reliability Improvement: '' @
             format_plus_f 1 (success_rate pgbouncer - success_rate direct) @
             '' percentage points'' @ NL @
          (if connection_rejections direct > connection_rejections pgbouncer
           then ''  '' @ check_mark @ '' PgBouncer eliminated '' @
                str_int (connection_rejections direct - connection_rejections pgbouncer) @
                '' connection rejections'' @ NL
           else [])
      | _ \<Rightarrow> [])"

text \<open>The block under \<^verbatim>\<open>with open(summary_file, 'w') as f\<close> (lines 184 to 239).\<close>

definition detailed_body :: "string \<Rightarrow> string \<Rightarrow> string \<Rightarrow> world \<Rightarrow> (error + unit) \<times> world" where
  "detailed_body results_dir timestamp now =
     bind_io (f_write (''PgBouncer Performance Test - DETAILED ANALYSIS'' @ NL)) (\<lambda>_.
     bind_io (f_write (replicate 60 (CHR ''='') @ NL)) (\<lambda>_.
     bind_io (f_write (''Generated: '' @ now @ NL @ NL)) (\<lambda>_.
     bind_io (f_write (''This analysis includes comprehensive reliability metrics:'' @ NL)) (\<lambda>_.
     bind_io (f_write (check_mark @ '' Success/Error Rates'' @ NL)) (\<lambda>_.
     bind_io (f_write (check_mark @ '' Connection Rejection Counts'' @ NL)) (\<lambda>_.
     bind_io (f_write (check_mark @ '' Timeout Rates'' @ NL)) (\<lambda>_.
     bind_io (f_write (check_mark @ '' Error Type Classification'' @ NL)) (\<lambda>_.
     bind_io (f_write (check_mark @ '' Performance Consistency'' @ NL @ NL)) (\<lambda>_.
     bind_io (parse_all (tests results_dir timestamp)) (\<lambda>all_results.
     bind_io (f_write (''PERFORMANCE SUMMARY'' @ NL)) (\<lambda>_.
     bind_io (f_write (replicate 30 (CHR ''='') @ NL)) (\<lambda>_.
     bind_io (f_write (concat (map performance_summary all_results))) (\<lambda>_.
     bind_io (f_write (NL @ NL @ ''RELIABILITY ANALYSIS'' @ NL)) (\<lambda>_.
     bind_io (f_write (replicate 30 (CHR ''='') @ NL)) (\<lambda>_.
     bind_io (f_write (concat (map (\<lambda>(test_name, d, p).
                generate_reliability_report [(''direct'', d), (''pgbouncer'', p)] test_name)
                all_results))) (\<lambda>_.
     bind_io (f_write (NL @ NL @ ''COMPARATIVE RELIABILITY'' @ NL)) (\<lambda>_.
     bind_io (f_write (replicate 30 (CHR ''='') @ NL)) (\<lambda>_.
     f_write (concat (map comparison all_results))))))))))))))))))))"

definition detailed_path :: "string \<Rightarrow> string \<Rightarrow> string" where
  "detailed_path results_dir timestamp =
     results_dir @ ''/detailed_analysis_'' @ timestamp @ ''.txt''"

definition analyze_results_improved_main ::
  "string list \<Rightarrow> string \<Rightarrow> world \<Rightarrow> (error + unit) \<times> world" where
  "analyze_results_improved_main argv now =
     (if length argv < 3
      then bind_io (py_print ''Usage: python3 analyze_results_improved.py <results_dir> <timestamp>'') (\<lambda>_.
           lift_err (Inl (SystemExit 1)))
      else
        (let results_dir = argv ! 1; timestamp = argv ! 2;
             summary_file = detailed_path results_dir timestamp in
         bind_io (with_open_w summary_file (detailed_body results_dir timestamp now)) (\<lambda>_.
         py_print (''Detailed analysis complete! Report saved to: '' @ summary_file))))"

subsection \<open>Predicates and values used to state the properties\<close>

text \<open>
  \<open>keeps sel m\<close>: the computation \<open>m\<close> leaves the component \<open>sel\<close> of the world as it
  was. \<open>reads_within m L\<close>: what \<open>m\<close> opens for reading, in order, is a subsequence of
  \<open>L\<close>.
\<close>

definition keeps :: "(world \<Rightarrow> 'x) \<Rightarrow> (world \<Rightarrow> (error + 'a) \<times> world) \<Rightarrow> bool" where
  "keeps sel m \<longleftrightarrow> (\<forall>w. sel (snd (m w)) = sel w)"

definition reads_within :: "(world \<Rightarrow> (error + 'a) \<times> world) \<Rightarrow> string list \<Rightarrow> bool" where
  "reads_within m L \<longleftrightarrow> (\<forall>w. \<exists>ps. opened (snd (m w)) = opened w @ ps \<and> subseq ps L)"

text \<open>
  The calls of \<^verbatim>\<open>open\<close> for reading that a run of either script can make, in order: the
  simple script parses the overhead and the extreme logs a second time for its key
  findings and reads its own report back; the detailed script parses each log once.
\<close>

definition simple_reads :: "string \<Rightarrow> string \<Rightarrow> string list" where
  "simple_reads d t =
     [log_path d ''direct'' ''overhead'' t, log_path d ''pgbouncer'' ''overhead'' t,
      log_path d ''direct'' ''concurrent'' t, log_path d ''pgbouncer'' ''concurrent'' t,
      log_path d ''direct'' ''extreme'' t, log_path d ''pgbouncer'' ''extreme'' t,
      log_path d ''direct'' ''overhead'' t, log_path d ''pgbouncer'' ''overhead'' t,
      log_path d ''direct'' ''extreme'' t, log_path d ''pgbouncer'' ''extreme'' t,
      summary_path d t]"

definition detailed_reads :: "string \<Rightarrow> string \<Rightarrow> string list" where
  "detailed_reads d t =
     [log_path d ''direct'' ''overhead'' t, log_path d ''pgbouncer'' ''overhead'' t,
      log_path d ''direct'' ''concurrent'' t, log_path d ''pgbouncer'' ''concurrent'' t,
      log_path d ''direct'' ''extreme'' t, log_path d ''pgbouncer'' ''extreme'' t]"

text \<open>The state before a run: nothing opened, nothing written, nothing printed.\<close>

definition fresh_world :: "(string \<Rightarrow> string option) \<Rightarrow> world" where
  "fresh_world fs = \<lparr> files = fs, opened = [], wbuf = [], stdout = [] \<rparr>"



section \<open>Properties\<close>

subsection \<open>Auxiliary facts\<close>

lemma bind_err_Inr_iff:
  "bind_err m k = Inr r \<longleftrightarrow> (\<exists>a. m = Inr a \<and> k a = Inr r)"
  by (cases m) (simp_all add: bind_err_def)



lemma py_int_nonneg_aux: "0 \<le> a \<Longrightarrow> 0 \<le> foldl (\<lambda>a c. 10 * a + int (digit_val c)) a s"
  by (induction s arbitrary: a) simp_all

lemma py_int_nonneg: "0 \<le> py_int s"
  by (simp add: py_int_def py_int_nonneg_aux)

lemma py_float_nonneg: "py_float s = Inr x \<Longrightarrow> 0 \<le> x"
  by (auto simp: py_float_def Let_def py_int_nonneg split: list.splits if_splits)

lemma py_float_error: "py_float s = Inl e \<Longrightarrow> e = ValueError"
  by (auto simp: py_float_def Let_def split: list.splits if_splits)

lemma float_or_zero_nonneg: "float_or_zero m = Inr x \<Longrightarrow> 0 \<le> x"
  by (auto simp: float_or_zero_def py_float_nonneg split: option.splits)

lemma float_or_zero_error: "float_or_zero m = Inl e \<Longrightarrow> e = ValueError"
  by (auto simp: float_or_zero_def py_float_error split: option.splits)

lemma success_rate_guarded:
  "(if tot > 0
    then bind_err (truediv (of_int p) (of_int tot)) (\<lambda>q. Inr (q * 100))
    else Inr 0) = Inr (if (tot::int) > 0 then of_int p / of_int tot * 100 else 0)"
  by (simp add: bind_err_def truediv_def)

lemma consistency_guarded:
  "(if s > 0 \<and> l > 0
    then bind_err (truediv s l)
           (\<lambda>q. Inr (if q * 100 > 50 then ''Poor'' else if q * 100 > 25 then ''Fair'' else ''Good''))
    else Inr ''Good'') =
   Inr (if s > 0 \<and> l > 0
        then (if s / l * 100 > 50 then ''Poor'' else if s / l * 100 > 25 then ''Fair'' else ''Good'')
        else ''Good'')"
proof (cases "s > 0 \<and> l > 0")
  case True
  then have "l \<noteq> 0" by simp
  then have "truediv s l = Inr (s / l)" by (simp add: truediv_def)
  with True show ?thesis by (simp only: bind_err_def sum.case simp_thms if_True)
next
  case False
  then show ?thesis by (simp only: if_False)
qed

lemma timeout_rate_guarded:
  "truediv (of_int te) (of_int (max 1 tot)) = Inr (of_int te / of_int (max 1 tot))"
proof -
  have "max 1 tot \<noteq> 0" by simp
  then show ?thesis by (simp add: truediv_def)
qed

lemma evaluate_metrics_eq:
  "evaluate_metrics t l s c n p cr tm te af fe ge content =
   Inr \<lparr> tps = t, latency = l, latency_stddev = s,
         performance_consistency =
           (if s > 0 \<and> l > 0
            then (if s / l * 100 > 50 then ''Poor'' else if s / l * 100 > 25 then ''Fair'' else ''Good'')
            else ''Good''),
         total_transactions_attempted = c * n,
         transactions_processed = p,
         success_rate = (if c * n > 0 then of_int p / of_int (c * n) * 100 else 0),
         error_rate = 100 - (if c * n > 0 then of_int p / of_int (c * n) * 100 else 0),
         connection_rejections = cr + tm,
         timeout_rate = of_int te / of_int (max 1 (c * n)) * 100,
         error_types =
            [(''connection_refused'', cr), (''too_many_clients'', tm), (''timeout_errors'', te),
             (''authentication_failed'', af), (''fatal_errors'', fe), (''generic_errors'', ge)],
         has_critical_errors =
           (cr > 0 \<or> tm > 0 \<or> fe > 0 \<or> (if c * n > 0 then of_int p / of_int (c * n) * 100 else 0) < (95::rat)),
         has_timeouts = (te > 0 \<or> contains ''timeout'' (map lower_char content)),
         clients = c, transactions_per_client = n, raw_content = content \<rparr>"
  unfolding evaluate_metrics_def Let_def success_rate_guarded consistency_guarded
    timeout_rate_guarded
  by (simp only: bind_err_def sum.case)

lemma parse_detailed_content_Inr:
  assumes "parse_detailed_content content = Inr r"
  shows "\<exists>t l s c n p cr tm te af fe ge.
           0 \<le> t \<and> 0 \<le> l \<and> 0 \<le> s \<and> 0 \<le> cr \<and> 0 \<le> tm \<and> 0 \<le> te \<and> 0 \<le> af \<and> 0 \<le> fe \<and> 0 \<le> ge \<and>
           0 \<le> c \<and> 0 \<le> n \<and> 0 \<le> p \<and>
           evaluate_metrics t l s c n p cr tm te af fe ge content = Inr r"
proof -
  from assms obtain t l s where
    t: "float_or_zero (re_search ''tps = '' is_num_char [] content) = Inr t" and
    l: "float_or_zero (re_search ''latency average = '' is_num_char '' ms'' content) = Inr l" and
    s: "float_or_zero (re_search ''latency stddev = '' is_num_char '' ms'' content) = Inr s" and
    e: "evaluate_metrics t l s
          (int_or_zero (re_search ''number of clients: '' is_digit [] content))
          (int_or_zero (re_search ''number of transactions per client: '' is_digit [] content))
          (int_or_zero (re_search ''number of transactions actually processed: '' is_digit [] content))
          (int (findall_count_ignorecase [''connection refused'', ''could not connect''] content))
          (int (findall_count_ignorecase [''too many clients'', ''connection limit''] content))
          (int (findall_count_ignorecase [''timeout'', ''timed out''] content))
          (int (findall_count_ignorecase [''authentication failed'', ''password authentication''] content))
          (int (findall_count [''FATAL:''] content))
          (int (findall_count [''ERROR:''] content))
          content = Inr r"
    unfolding parse_detailed_content_def bind_err_Inr_iff Let_def by blast
  have iz: "\<And>m. 0 \<le> int_or_zero m"
    by (simp add: int_or_zero_def py_int_nonneg split: option.splits)
  show ?thesis
    apply (intro exI conjI)
    prefer 13 apply (rule e)
    using float_or_zero_nonneg[OF t] float_or_zero_nonneg[OF l] float_or_zero_nonneg[OF s] iz
    apply simp_all
    done
qed


lemma parse_detailed_content_error:
  assumes "parse_detailed_content content = Inl e"
  shows "e = ValueError"
proof -
  have ev: "\<And>t l s c n p cr tm te af fe ge. evaluate_metrics t l s c n p cr tm te af fe ge content \<noteq> Inl e"
    by (simp add: evaluate_metrics_eq)
  from assms show ?thesis
    unfolding parse_detailed_content_def Let_def
    by (auto simp: bind_err_def ev split: sum.splits dest: float_or_zero_error)
qed

lemma block_ends_with_assessment:
  "suffix (overall_assessment r) (reliability_block ct (Some r))"
  unfolding reliability_block_def option.case
  by (intro suffix_appendI suffix_order.refl)

subsection \<open>Guarded divisions of the evaluation\<close>

text \<open>
  Claim C4. For all extracted figures and error counts the evaluation (lines 38 to 109 of
  \<^verbatim>\<open>parse_pgbench_output_detailed\<close>) returns a result, so none of its divisions has a zero
  divisor: when the number of attempted transactions is 0 the success rate is exactly 0,
  and the timeout rate is \<open>timeout_errors / max(1, attempted) * 100\<close> with a divisor that is
  never 0. The whole parser never raises ZeroDivisionError either.
\<close>
theorem evaluate_never_divides_by_zero:
  "(\<exists>r. evaluate_metrics t l s c n p cr tm te af fe ge content = Inr r \<and>
        total_transactions_attempted r = c * n \<and>
        (total_transactions_attempted r = 0 \<longrightarrow> success_rate r = 0) \<and>
        max 1 (total_transactions_attempted r) \<noteq> 0 \<and>
        timeout_rate r = of_int te / of_int (max 1 (total_transactions_attempted r)) * 100) \<and>
   parse_detailed_content log_text \<noteq> Inl ZeroDivisionError"
proof
  show "\<exists>r. evaluate_metrics t l s c n p cr tm te af fe ge content = Inr r \<and>
        total_transactions_attempted r = c * n \<and>
        (total_transactions_attempted r = 0 \<longrightarrow> success_rate r = 0) \<and>
        max 1 (total_transactions_attempted r) \<noteq> 0 \<and>
        timeout_rate r = of_int te / of_int (max 1 (total_transactions_attempted r)) * 100"
    unfolding evaluate_metrics_eq by (intro exI conjI, rule refl) simp_all
  show "parse_detailed_content log_text \<noteq> Inl ZeroDivisionError"
    using parse_detailed_content_error[of log_text ZeroDivisionError] by auto
qed

theorem evaluate_never_divides_by_zero_witness:
  "\<exists>r. evaluate_metrics 10 2 1 0 5 3 0 0 4 0 0 0 ''timeout'' = Inr r \<and>
       total_transactions_attempted r = 0 \<and> success_rate r = 0 \<and> timeout_rate r = 400"
  using evaluate_never_divides_by_zero[of 10 2 1 0 5 3 0 0 4 0 0 0 "''timeout''" "[]"]
  by auto

subsection \<open>The consistency rating\<close>




subsection \<open>A numeral that \<^verbatim>\<open>float\<close> rejects\<close>

text \<open>
  Claim C2 says that the extraction never raises. The group \<^verbatim>\<open>[0-9.]+\<close> also matches
  texts that are not numerals: on a log that holds \<^verbatim>\<open>tps = 1.2.3\<close> both parsers raise
  ValueError.
\<close>
theorem extract_raises_on_malformed_numeral:
  "parse_detailed_content ''tps = 1.2.3'' = Inl ValueError \<and>
   parse_simple_content ''tps = 1.2.3'' = Inl ValueError"
  by code_simp

text \<open>
  The rest of the claim holds: a field whose marker does not occur in the text is zero,
  and a text with none of the markers is parsed, without an exception, to zeros.
\<close>

lemma re_search_without_marker:
  "\<not> contains pre s \<Longrightarrow> re_search pre cls suf s = None"
proof (induction s)
  case Nil
  then show ?case by (simp add: match_at_def)
next
  case (Cons c cs)
  then show ?case by (simp add: match_at_def)
qed

lemma extract_defaults_without_markers:
  assumes "\<not> contains ''tps = '' content"
    and "\<not> contains ''latency average = '' content"
    and "\<not> contains ''latency stddev = '' content"
    and "\<not> contains ''scaling factor: '' content"
    and "\<not> contains ''number of clients: '' content"
    and "\<not> contains ''number of transactions per client: '' content"
    and "\<not> contains ''number of transactions actually processed: '' content"
  shows "\<exists>r. parse_detailed_content content = Inr r \<and>
             tps r = 0 \<and> latency r = 0 \<and> latency_stddev r = 0 \<and> clients r = 0 \<and>
             transactions_per_client r = 0 \<and> transactions_processed r = 0 \<and>
             total_transactions_attempted r = 0 \<and> success_rate r = 0"
    and "\<exists>d. parse_simple_content content = Inr d \<and> s_tps d = 0 \<and> s_latency d = 0"
proof -
  note none = assms[THEN re_search_without_marker]
  show "\<exists>r. parse_detailed_content content = Inr r \<and>
             tps r = 0 \<and> latency r = 0 \<and> latency_stddev r = 0 \<and> clients r = 0 \<and>
             transactions_per_client r = 0 \<and> transactions_processed r = 0 \<and>
             total_transactions_attempted r = 0 \<and> success_rate r = 0"
    unfolding parse_detailed_content_def none
    by (simp add: float_or_zero_def int_or_zero_def bind_err_def evaluate_metrics_eq)
  show "\<exists>d. parse_simple_content content = Inr d \<and> s_tps d = 0 \<and> s_latency d = 0"
    unfolding parse_simple_content_def none
    by (simp add: float_or_zero_def bind_err_def)
qed

lemma extract_field_default:
  assumes "parse_detailed_content content = Inr r"
  shows "\<not> contains ''tps = '' content \<Longrightarrow> tps r = 0"
    and "\<not> contains ''latency average = '' content \<Longrightarrow> latency r = 0"
    and "\<not> contains ''latency stddev = '' content \<Longrightarrow> latency_stddev r = 0"
    and "\<not> contains ''number of clients: '' content \<Longrightarrow> clients r = 0"
    and "\<not> contains ''number of transactions per client: '' content \<Longrightarrow>
           transactions_per_client r = 0"
    and "\<not> contains ''number of transactions actually processed: '' content \<Longrightarrow>
           transactions_processed r = 0"
  using assms
  unfolding parse_detailed_content_def Let_def bind_err_Inr_iff evaluate_metrics_eq
  by (auto simp: re_search_without_marker float_or_zero_def int_or_zero_def)

subsection \<open>Critical errors\<close>

text \<open>
  Claim C6. For every result the detailed parser returns, \<open>has_critical_errors\<close> holds if
  and only if the connection rejections (the sum of the counts of refused connections and
  of too many clients) are positive, or the count of fatal errors is positive, or the
  success rate is below 95; so it holds whenever the success rate is below 95, also when
  all six counts are zero.
\<close>
theorem has_critical_errors_iff:
  assumes "parse_detailed_content content = Inr r"
  shows "\<exists>cr tm te af fe ge.
           error_types r =
             [(''connection_refused'', cr), (''too_many_clients'', tm), (''timeout_errors'', te),
              (''authentication_failed'', af), (''fatal_errors'', fe), (''generic_errors'', ge)] \<and>
           connection_rejections r = cr + tm \<and>
           (has_critical_errors r \<longleftrightarrow>
              connection_rejections r > 0 \<or> fe > 0 \<or> success_rate r < 95) \<and>
           (success_rate r < 95 \<longrightarrow> has_critical_errors r)"
proof -
  from parse_detailed_content_Inr[OF assms] obtain t l s c n p cr tm te af fe ge where
    nn: "0 \<le> cr" "0 \<le> tm" and
    e: "evaluate_metrics t l s c n p cr tm te af fe ge content = Inr r"
    by blast
  from e have r:
    "error_types r =
       [(''connection_refused'', cr), (''too_many_clients'', tm), (''timeout_errors'', te),
        (''authentication_failed'', af), (''fatal_errors'', fe), (''generic_errors'', ge)]"
    "connection_rejections r = cr + tm"
    "has_critical_errors r = (cr > 0 \<or> tm > 0 \<or> fe > 0 \<or> success_rate r < 95)"
    unfolding evaluate_metrics_eq by auto
  from nn have "cr + tm > 0 \<longleftrightarrow> cr > 0 \<or> tm > 0" by arith
  with r have
    "error_types r =
       [(''connection_refused'', cr), (''too_many_clients'', tm), (''timeout_errors'', te),
        (''authentication_failed'', af), (''fatal_errors'', fe), (''generic_errors'', ge)] \<and>
     connection_rejections r = cr + tm \<and>
     (has_critical_errors r \<longleftrightarrow>
        connection_rejections r > 0 \<or> fe > 0 \<or> success_rate r < 95) \<and>
     (success_rate r < 95 \<longrightarrow> has_critical_errors r)"
    by auto
  then show ?thesis by blast
qed

theorem has_critical_errors_iff_witness:
  "\<exists>r. parse_detailed_content ''pgbench: no figures'' = Inr r \<and>
       error_types r =
         [(''connection_refused'', 0), (''too_many_clients'', 0), (''timeout_errors'', 0),
          (''authentication_failed'', 0), (''fatal_errors'', 0), (''generic_errors'', 0)] \<and>
       success_rate r < 95 \<and> has_critical_errors r"
proof -
  have "case parse_detailed_content ''pgbench: no figures'' of
          Inl e \<Rightarrow> False
        | Inr r \<Rightarrow> success_rate r = 0 \<and>
            error_types r =
              [(''connection_refused'', 0), (''too_many_clients'', 0), (''timeout_errors'', 0),
               (''authentication_failed'', 0), (''fatal_errors'', 0), (''generic_errors'', 0)]"
    by code_simp
  then obtain r where
    p: "parse_detailed_content ''pgbench: no figures'' = Inr r" and
    v: "success_rate r = 0"
       "error_types r =
              [(''connection_refused'', 0), (''too_many_clients'', 0), (''timeout_errors'', 0),
               (''authentication_failed'', 0), (''fatal_errors'', 0), (''generic_errors'', 0)]"
    by (auto split: sum.splits)
  from has_critical_errors_iff[OF p] v p show ?thesis by auto
qed

subsection \<open>The reliability label\<close>

text \<open>
  Claim C7. The block written for a connection type with a result ends with the overall
  assessment, which is the CRITICAL line whenever \<open>has_critical_errors\<close> holds, whatever the
  success rate; otherwise EXCELLENT from 99, GOOD from 95 and below 99, POOR below 95.
\<close>
theorem reliability_label:
  "suffix (overall_assessment r) (reliability_block connection_type (Some r)) \<and>
   (has_critical_errors r \<longrightarrow>
      overall_assessment r = ''  '' @ warning_sign @ ''  CRITICAL ERRORS DETECTED'' @ NL) \<and>
   (\<not> has_critical_errors r \<and> success_rate r \<ge> 99 \<longrightarrow>
      overall_assessment r = ''  '' @ check_mark @ '' EXCELLENT RELIABILITY'' @ NL) \<and>
   (\<not> has_critical_errors r \<and> 95 \<le> success_rate r \<and> success_rate r < 99 \<longrightarrow>
      overall_assessment r = ''  '' @ check_mark @ '' GOOD RELIABILITY'' @ NL) \<and>
   (\<not> has_critical_errors r \<and> success_rate r < 95 \<longrightarrow>
      overall_assessment r = ''  '' @ warning_sign @ ''  POOR RELIABILITY'' @ NL)"
  using block_ends_with_assessment[of r connection_type]
  by (simp add: overall_assessment_def)

theorem reliability_label_witness:
  "\<exists>r. parse_detailed_content
          (''number of clients: 1, number of transactions per client: 1, '' @
           ''number of transactions actually processed: 1, FATAL: late'') = Inr r \<and>
       has_critical_errors r \<and> success_rate r = 100 \<and>
       suffix (''  '' @ warning_sign @ ''  CRITICAL ERRORS DETECTED'' @ NL)
         (reliability_block ''direct'' (Some r))"
proof -
  have "case parse_detailed_content
          (''number of clients: 1, number of transactions per client: 1, '' @
           ''number of transactions actually processed: 1, FATAL: late'') of
          Inl e \<Rightarrow> False
        | Inr r \<Rightarrow> success_rate r = 100 \<and> has_critical_errors r"
    by code_simp
  then obtain r where
    p: "parse_detailed_content
          (''number of clients: 1, number of transactions per client: 1, '' @
           ''number of transactions actually processed: 1, FATAL: late'') = Inr r" and
    v: "success_rate r = 100" "has_critical_errors r"
    by (auto split: sum.splits)
  from reliability_label[of r "''direct''"] v p show ?thesis by auto
qed

text \<open>
  Claim C10. For every result the detailed parser returns, a success rate below 95 implies
  \<open>has_critical_errors\<close>, so the assessment that ends the block is never the POOR line: it
  is the CRITICAL line, or EXCELLENT (from 99), or GOOD (from 95).
\<close>
theorem poor_reliability_unreachable:
  assumes "parse_detailed_content content = Inr r"
  shows "(success_rate r < 95 \<longrightarrow> has_critical_errors r) \<and>
         overall_assessment r \<noteq> ''  '' @ warning_sign @ ''  POOR RELIABILITY'' @ NL \<and>
         (overall_assessment r = ''  '' @ warning_sign @ ''  CRITICAL ERRORS DETECTED'' @ NL \<or>
          success_rate r \<ge> 99 \<and>
            overall_assessment r = ''  '' @ check_mark @ '' EXCELLENT RELIABILITY'' @ NL \<or>
          success_rate r \<ge> 95 \<and>
            overall_assessment r = ''  '' @ check_mark @ '' GOOD RELIABILITY'' @ NL) \<and>
         suffix (overall_assessment r) (reliability_block connection_type (Some r))"
proof -
  from parse_detailed_content_Inr[OF assms] obtain t l s c n p cr tm te af fe ge where
    e: "evaluate_metrics t l s c n p cr tm te af fe ge content = Inr r"
    by blast
  from e have "has_critical_errors r = (cr > 0 \<or> tm > 0 \<or> fe > 0 \<or> success_rate r < 95)"
    unfolding evaluate_metrics_eq by auto
  then have low: "success_rate r < 95 \<longrightarrow> has_critical_errors r" by simp
  then show ?thesis
    using block_ends_with_assessment[of r connection_type]
    by (auto simp: overall_assessment_def warning_sign_def check_mark_def)
qed

theorem poor_reliability_unreachable_witness:
  "\<exists>r. parse_detailed_content
          (''number of clients: 10, number of transactions per client: 10, '' @
           ''number of transactions actually processed: 94'') = Inr r \<and>
       success_rate r = 94 \<and> has_critical_errors r \<and>
       overall_assessment r = ''  '' @ warning_sign @ ''  CRITICAL ERRORS DETECTED'' @ NL"
proof -
  have "case parse_detailed_content
          (''number of clients: 10, number of transactions per client: 10, '' @
           ''number of transactions actually processed: 94'') of
          Inl e \<Rightarrow> False
        | Inr r \<Rightarrow> success_rate r = 94"
    by code_simp
  then obtain r where
    p: "parse_detailed_content
          (''number of clients: 10, number of transactions per client: 10, '' @
           ''number of transactions actually processed: 94'') = Inr r" and
    v: "success_rate r = 94"
    by (auto split: sum.splits)
  from poor_reliability_unreachable[OF p, of "''direct''"] v p show ?thesis
    by (auto simp: warning_sign_def check_mark_def)
qed

subsection \<open>What a computation leaves unchanged\<close>

lemma keeps_return: "keeps sel (return_io a)"
  by (simp add: keeps_def return_io_def)

lemma keeps_lift: "keeps sel (lift_err e)"
  by (simp add: keeps_def lift_err_def)

lemma keeps_bind:
  assumes "keeps sel m" and "\<And>a. keeps sel (k a)"
  shows "keeps sel (bind_io m k)"
proof -
  have "sel (snd (bind_io m k w)) = sel w" for w
  proof (cases "m w")
    case (Pair r w')
    with assms(1) have w': "sel w' = sel w" by (auto simp: keeps_def dest: spec[of _ w])
    show ?thesis
    proof (cases r)
      case (Inl e)
      with Pair w' show ?thesis by (simp add: bind_io_def)
    next
      case (Inr a)
      with Pair w' assms(2)[of a] show ?thesis by (simp add: bind_io_def keeps_def)
    qed
  qed
  then show ?thesis by (simp add: keeps_def)
qed

lemma keeps_if: "keeps sel a \<Longrightarrow> keeps sel b \<Longrightarrow> keeps sel (if c then a else b)"
  by simp

lemma keeps_case_option:
  "keeps sel a \<Longrightarrow> (\<And>d. keeps sel (b d)) \<Longrightarrow> keeps sel (case x of None \<Rightarrow> a | Some d \<Rightarrow> b d)"
  by (cases x) simp_all

lemma keeps_case_prod: "(\<And>a b. keeps sel (f a b)) \<Longrightarrow> keeps sel (case p of (a, b) \<Rightarrow> f a b)"
  by (cases p) simp

lemma keeps_f_write_opened: "keeps opened (f_write s)"
  by (simp add: keeps_def f_write_def)

lemma keeps_f_write_stdout: "keeps stdout (f_write s)"
  by (simp add: keeps_def f_write_def)

lemma keeps_py_print_opened: "keeps opened (py_print s)"
  by (simp add: keeps_def py_print_def)

lemma keeps_read_file_stdout: "keeps stdout (read_file p)"
  by (simp add: keeps_def read_file_def split: option.splits)

lemma keeps_parse_stdout: "keeps stdout (parse_pgbench_output f)"
  unfolding parse_pgbench_output_def keeps_def
  by (auto split: option.splits intro!: keeps_bind[unfolded keeps_def, rule_format] 
      simp: keeps_read_file_stdout[unfolded keeps_def] lift_err_def)

lemma keeps_parse_detailed_stdout: "keeps stdout (parse_pgbench_output_detailed f)"
  unfolding parse_pgbench_output_detailed_def keeps_def
  by (auto split: option.splits intro!: keeps_bind[unfolded keeps_def, rule_format] 
      simp: keeps_read_file_stdout[unfolded keeps_def] lift_err_def)

lemma keeps_for_each: "(\<And>x. keeps sel (body x)) \<Longrightarrow> keeps sel (for_each body xs)"
  by (induction xs) (auto intro: keeps_return keeps_bind)

lemma keeps_parse_all_stdout: "keeps stdout (parse_all ts)"
  by (induction ts rule: parse_all.induct)
     (auto intro!: keeps_return keeps_bind keeps_parse_detailed_stdout)

lemmas keeps_intros =
  keeps_return keeps_lift keeps_bind keeps_if keeps_case_option keeps_case_prod
  keeps_f_write_opened keeps_f_write_stdout keeps_py_print_opened keeps_read_file_stdout
  keeps_parse_stdout keeps_parse_detailed_stdout keeps_for_each keeps_parse_all_stdout

lemma keeps_stdout_test_section: "keeps stdout (test_section t)"
  unfolding test_section_def by (intro keeps_intros)

lemma keeps_stdout_key_findings: "keeps stdout (key_findings d t)"
  unfolding key_findings_def by (intro keeps_intros)

lemma keeps_stdout_summary_body: "keeps stdout (summary_body d t now)"
  unfolding summary_body_def
  by (intro keeps_intros keeps_stdout_test_section keeps_stdout_key_findings)

lemma keeps_stdout_detailed_body: "keeps stdout (detailed_body d t now)"
  unfolding detailed_body_def by (intro keeps_intros)


lemma with_open_w_result:
  assumes "keeps stdout body"
  shows "\<exists>w'. with_open_w path body w =
            (fst (body (w\<lparr>files := (files w)(path \<mapsto> []), wbuf := []\<rparr>)), w') \<and>
          stdout w' = stdout w \<and>
          files w' path = Some (wbuf (snd (body (w\<lparr>files := (files w)(path \<mapsto> []), wbuf := []\<rparr>))))"
proof -
  obtain r w1 where b: "body (w\<lparr>files := (files w)(path \<mapsto> []), wbuf := []\<rparr>) = (r, w1)"
    by (cases "body (w\<lparr>files := (files w)(path \<mapsto> []), wbuf := []\<rparr>)")
  from assms have "stdout (snd (body (w\<lparr>files := (files w)(path \<mapsto> []), wbuf := []\<rparr>))) =
      stdout (w\<lparr>files := (files w)(path \<mapsto> []), wbuf := []\<rparr>)"
    unfolding keeps_def by blast
  with b have "stdout w1 = stdout w" by simp
  with b show ?thesis by (simp add: with_open_w_def)
qed

subsection \<open>The report file and the standard output\<close>

text \<open>
  Claim C8, as the code has it. A run of the simple script that completes leaves the
  report (everything written under the \<^verbatim>\<open>with\<close> block) in \<^verbatim>\<open><dir>/summary_<timestamp>.txt\<close>
  and prints, after the file is closed, a line naming the file, an empty line and the
  same report. A run of the detailed script that completes leaves its report in
  \<^verbatim>\<open><dir>/detailed_analysis_<timestamp>.txt\<close> and prints only the line naming the file.
\<close>
theorem report_file_and_echo:
  "(fst (analyze_results_main argv now w) = Inr () \<longrightarrow>
      (\<exists>report.
         files (snd (analyze_results_main argv now w)) (summary_path (argv ! 1) (argv ! 2)) = Some report \<and>
         report = wbuf (snd (summary_body (argv ! 1) (argv ! 2) now
                    (w\<lparr>files := (files w)(summary_path (argv ! 1) (argv ! 2) \<mapsto> []), wbuf := []\<rparr>))) \<and>
         stdout (snd (analyze_results_main argv now w)) =
           stdout w @ ''Analysis complete! Summary saved to: '' @ summary_path (argv ! 1) (argv ! 2) @ NL @
           NL @ report @ NL)) \<and>
   (fst (analyze_results_improved_main argv now w) = Inr () \<longrightarrow>
      (\<exists>report.
         files (snd (analyze_results_improved_main argv now w)) (detailed_path (argv ! 1) (argv ! 2)) = Some report \<and>
         report = wbuf (snd (detailed_body (argv ! 1) (argv ! 2) now
                    (w\<lparr>files := (files w)(detailed_path (argv ! 1) (argv ! 2) \<mapsto> []), wbuf := []\<rparr>))) \<and>
         stdout (snd (analyze_results_improved_main argv now w)) =
           stdout w @ ''Detailed analysis complete! Report saved to: '' @
           detailed_path (argv ! 1) (argv ! 2) @ NL))"
proof (intro conjI impI)
  assume ok: "fst (analyze_results_main argv now w) = Inr ()"
  then have len: "\<not> length argv < 3"
    by (auto simp: analyze_results_main_def bind_io_def py_print_def lift_err_def)
  from with_open_w_result[OF keeps_stdout_summary_body, of "summary_path (argv ! 1) (argv ! 2)" "argv ! 1" "argv ! 2" now w]
  obtain w1 where
    w1: "with_open_w (summary_path (argv ! 1) (argv ! 2)) (summary_body (argv ! 1) (argv ! 2) now) w =
           (fst (summary_body (argv ! 1) (argv ! 2) now
              (w\<lparr>files := (files w)(summary_path (argv ! 1) (argv ! 2) \<mapsto> []), wbuf := []\<rparr>)), w1)" and
    s1: "stdout w1 = stdout w" and
    f1: "files w1 (summary_path (argv ! 1) (argv ! 2)) =
           Some (wbuf (snd (summary_body (argv ! 1) (argv ! 2) now
              (w\<lparr>files := (files w)(summary_path (argv ! 1) (argv ! 2) \<mapsto> []), wbuf := []\<rparr>))))"
    by blast
  from ok len w1 s1 f1 show "\<exists>report.
         files (snd (analyze_results_main argv now w)) (summary_path (argv ! 1) (argv ! 2)) = Some report \<and>
         report = wbuf (snd (summary_body (argv ! 1) (argv ! 2) now
                    (w\<lparr>files := (files w)(summary_path (argv ! 1) (argv ! 2) \<mapsto> []), wbuf := []\<rparr>))) \<and>
         stdout (snd (analyze_results_main argv now w)) =
           stdout w @ ''Analysis complete! Summary saved to: '' @ summary_path (argv ! 1) (argv ! 2) @ NL @
           NL @ report @ NL"
    by (auto simp: analyze_results_main_def Let_def bind_io_def py_print_def read_file_def
             split: sum.splits)
next
  assume ok: "fst (analyze_results_improved_main argv now w) = Inr ()"
  then have len: "\<not> length argv < 3"
    by (auto simp: analyze_results_improved_main_def bind_io_def py_print_def lift_err_def)
  from with_open_w_result[OF keeps_stdout_detailed_body, of "detailed_path (argv ! 1) (argv ! 2)" "argv ! 1" "argv ! 2" now w]
  obtain w1 where
    w1: "with_open_w (detailed_path (argv ! 1) (argv ! 2)) (detailed_body (argv ! 1) (argv ! 2) now) w =
           (fst (detailed_body (argv ! 1) (argv ! 2) now
              (w\<lparr>files := (files w)(detailed_path (argv ! 1) (argv ! 2) \<mapsto> []), wbuf := []\<rparr>)), w1)" and
    s1: "stdout w1 = stdout w" and
    f1: "files w1 (detailed_path (argv ! 1) (argv ! 2)) =
           Some (wbuf (snd (detailed_body (argv ! 1) (argv ! 2) now
              (w\<lparr>files := (files w)(detailed_path (argv ! 1) (argv ! 2) \<mapsto> []), wbuf := []\<rparr>))))"
    by blast
  from ok len w1 s1 f1 show "\<exists>report.
         files (snd (analyze_results_improved_main argv now w)) (detailed_path (argv ! 1) (argv ! 2)) = Some report \<and>
         report = wbuf (snd (detailed_body (argv ! 1) (argv ! 2) now
                    (w\<lparr>files := (files w)(detailed_path (argv ! 1) (argv ! 2) \<mapsto> []), wbuf := []\<rparr>))) \<and>
         stdout (snd (analyze_results_improved_main argv now w)) =
           stdout w @ ''Detailed analysis complete! Report saved to: '' @
           detailed_path (argv ! 1) (argv ! 2) @ NL"
    by (auto simp: analyze_results_improved_main_def Let_def bind_io_def py_print_def
             split: sum.splits)
qed


lemma detailed_run_without_logs:
  "fst (analyze_results_improved_main [''analyze_results_improved.py'', ''d'', ''t''] ''now''
          (fresh_world Map.empty)) = Inr () \<and>
   stdout (snd (analyze_results_improved_main [''analyze_results_improved.py'', ''d'', ''t''] ''now''
                  (fresh_world Map.empty))) =
     ''Detailed analysis complete! Report saved to: d/detailed_analysis_t.txt'' @ NL \<and>
   (case files (snd (analyze_results_improved_main [''analyze_results_improved.py'', ''d'', ''t''] ''now''
                       (fresh_world Map.empty))) ''d/detailed_analysis_t.txt'' of
      None \<Rightarrow> False
    | Some report \<Rightarrow>
        \<not> contains report
            (stdout (snd (analyze_results_improved_main [''analyze_results_improved.py'', ''d'', ''t'']
                            ''now'' (fresh_world Map.empty)))))"
proof -
  have c: "(case analyze_results_improved_main [''analyze_results_improved.py'', ''d'', ''t''] ''now''
              (fresh_world Map.empty) of
            (r, w) \<Rightarrow>
              r = Inr () \<and>
              stdout w = ''Detailed analysis complete! Report saved to: d/detailed_analysis_t.txt'' @ NL \<and>
              (case files w ''d/detailed_analysis_t.txt'' of
                 None \<Rightarrow> False
               | Some report \<Rightarrow> \<not> contains report (stdout w)))"
    by code_simp
  show ?thesis
  proof (cases "analyze_results_improved_main [''analyze_results_improved.py'', ''d'', ''t''] ''now''
                  (fresh_world Map.empty)")
    case (Pair r w)
    show ?thesis
      using c unfolding Pair prod.case fst_conv snd_conv .
  qed
qed

theorem report_file_and_echo_witness:
  "fst (analyze_results_main [''analyze_results.py'', ''d'', ''t''] ''now'' (fresh_world Map.empty)) = Inr () \<and>
   (\<exists>report.
      files (snd (analyze_results_main [''analyze_results.py'', ''d'', ''t''] ''now''
                    (fresh_world Map.empty))) ''d/summary_t.txt'' = Some report \<and>
      stdout (snd (analyze_results_main [''analyze_results.py'', ''d'', ''t''] ''now''
                    (fresh_world Map.empty))) =
        ''Analysis complete! Summary saved to: d/summary_t.txt'' @ NL @ NL @ report @ NL) \<and>
   fst (analyze_results_improved_main [''analyze_results_improved.py'', ''d'', ''t''] ''now''
          (fresh_world Map.empty)) = Inr () \<and>
   stdout (snd (analyze_results_improved_main [''analyze_results_improved.py'', ''d'', ''t''] ''now''
                  (fresh_world Map.empty))) =
     ''Detailed analysis complete! Report saved to: d/detailed_analysis_t.txt'' @ NL"
proof -
  have s: "fst (analyze_results_main [''analyze_results.py'', ''d'', ''t''] ''now''
                  (fresh_world Map.empty)) = Inr ()"
    by code_simp
  have d: "fst (analyze_results_improved_main [''analyze_results_improved.py'', ''d'', ''t''] ''now''
                  (fresh_world Map.empty)) = Inr ()"
    by (rule conjunct1[OF detailed_run_without_logs])
  have e: "stdout (fresh_world Map.empty) = []"
    by (simp add: fresh_world_def)
  from report_file_and_echo[of "[''analyze_results.py'', ''d'', ''t'']" "''now''" "fresh_world Map.empty"]
       report_file_and_echo[of "[''analyze_results_improved.py'', ''d'', ''t'']" "''now''" "fresh_world Map.empty"]
       s d e
  show ?thesis
    by (simp add: summary_path_def detailed_path_def)
qed

text \<open>
  Claim C8 as stated fails for the detailed script: a run that completes prints the
  line that names the report file and nothing else, and the report is not on the
  standard output.
\<close>

theorem detailed_script_does_not_echo:
  "fst (analyze_results_improved_main [''analyze_results_improved.py'', ''d'', ''t''] ''now''
          (fresh_world Map.empty)) = Inr () \<and>
   stdout (snd (analyze_results_improved_main [''analyze_results_improved.py'', ''d'', ''t''] ''now''
                  (fresh_world Map.empty))) =
     ''Detailed analysis complete! Report saved to: d/detailed_analysis_t.txt'' @ NL \<and>
   (case files (snd (analyze_results_improved_main [''analyze_results_improved.py'', ''d'', ''t''] ''now''
                       (fresh_world Map.empty))) ''d/detailed_analysis_t.txt'' of
      None \<Rightarrow> False
    | Some report \<Rightarrow>
        \<not> contains report
            (stdout (snd (analyze_results_improved_main [''analyze_results_improved.py'', ''d'', ''t'']
                            ''now'' (fresh_world Map.empty)))))"
  by (rule detailed_run_without_logs)

subsection \<open>What a computation opens for reading\<close>

lemma keeps_opened_with_open_w:
  assumes "reads_within body L"
  shows "reads_within (with_open_w path body) L"
proof -
  have "\<exists>ps. opened (snd (with_open_w path body w)) = opened w @ ps \<and> subseq ps L" for w
  proof -
    from assms obtain ps where
      "opened (snd (body (w\<lparr>files := (files w)(path \<mapsto> []), wbuf := []\<rparr>))) =
         opened (w\<lparr>files := (files w)(path \<mapsto> []), wbuf := []\<rparr>) @ ps" and "subseq ps L"
      unfolding reads_within_def by blast
    then show ?thesis
      by (cases "body (w\<lparr>files := (files w)(path \<mapsto> []), wbuf := []\<rparr>)")
         (auto simp: with_open_w_def)
  qed
  then show ?thesis by (simp add: reads_within_def)
qed

lemma rw_keeps: "keeps opened m \<Longrightarrow> reads_within m []"
  by (simp add: keeps_def reads_within_def)

lemma rw_mono: "reads_within m L \<Longrightarrow> subseq L L' \<Longrightarrow> reads_within m L'"
  unfolding reads_within_def by (meson subseq_order.trans)

lemma rw_bind:
  assumes "reads_within m L1" and "\<And>a. reads_within (k a) L2"
  shows "reads_within (bind_io m k) (L1 @ L2)"
proof -
  have "\<exists>ps. opened (snd (bind_io m k w)) = opened w @ ps \<and> subseq ps (L1 @ L2)" for w
  proof (cases "m w")
    case (Pair r w')
    from assms(1) Pair obtain ps1 where p1: "opened w' = opened w @ ps1" "subseq ps1 L1"
      unfolding reads_within_def by (metis snd_conv)
    show ?thesis
    proof (cases r)
      case (Inl e)
      with Pair p1 show ?thesis
        by (auto simp: bind_io_def intro: subseq_order.trans)
    next
      case (Inr a)
      from assms(2)[of a] obtain ps2 where
        p2: "opened (snd (k a w')) = opened w' @ ps2" "subseq ps2 L2"
        unfolding reads_within_def by blast
      from p1 p2 have "subseq (ps1 @ ps2) (L1 @ L2)" by (simp add: list_emb_append_mono)
      with Pair Inr p1 p2 show ?thesis by (auto simp: bind_io_def)
    qed
  qed
  then show ?thesis by (simp add: reads_within_def)
qed

lemma rw_bind_keeps:
  "keeps opened m \<Longrightarrow> (\<And>a. reads_within (k a) L) \<Longrightarrow> reads_within (bind_io m k) L"
  using rw_bind[OF rw_keeps, of m k L] by simp

lemma rw_write: "(\<And>a. reads_within (k a) L) \<Longrightarrow> reads_within (bind_io (f_write s) k) L"
  by (rule rw_bind_keeps[OF keeps_f_write_opened])

lemma rw_read_file: "reads_within (read_file p) [p]"
  by (auto simp: reads_within_def read_file_def split: option.splits)

lemma rw_parse_simple: "reads_within (parse_pgbench_output f) [f]"
proof -
  have "reads_within (bind_io (read_file f)
          (\<lambda>content. lift_err (bind_err (parse_simple_content content) (\<lambda>r. Inr (Some r))))) ([f] @ [])"
    by (intro rw_bind rw_read_file rw_keeps keeps_lift)
  then show ?thesis
    by (auto simp: reads_within_def parse_pgbench_output_def split: option.splits)
qed

lemma rw_parse_detailed: "reads_within (parse_pgbench_output_detailed f) [f]"
proof -
  have "reads_within (bind_io (read_file f)
          (\<lambda>content. lift_err (bind_err (parse_detailed_content content) (\<lambda>r. Inr (Some r))))) ([f] @ [])"
    by (intro rw_bind rw_read_file rw_keeps keeps_lift)
  then show ?thesis
    by (auto simp: reads_within_def parse_pgbench_output_detailed_def split: option.splits)
qed

lemma rw_bind_parse:
  "(\<And>a. reads_within (k a) L) \<Longrightarrow> reads_within (bind_io (parse_pgbench_output f) k) (f # L)"
  using rw_bind[OF rw_parse_simple, of k L f] by simp

lemma rw_bind_parse_detailed:
  "(\<And>a. reads_within (k a) L) \<Longrightarrow>
   reads_within (bind_io (parse_pgbench_output_detailed f) k) (f # L)"
  using rw_bind[OF rw_parse_detailed, of k L f] by simp

lemma rw_test_section: "reads_within (test_section (n, f1, f2)) [f1, f2]"
  unfolding test_section_def prod.case
  apply (intro rw_write rw_bind_parse)
  apply (rule rw_keeps)
  apply (intro keeps_intros)
  done

lemma rw_key_findings:
  "reads_within (key_findings d t)
     [log_path d ''direct'' ''overhead'' t, log_path d ''pgbouncer'' ''overhead'' t,
      log_path d ''direct'' ''extreme'' t, log_path d ''pgbouncer'' ''extreme'' t]"
  unfolding key_findings_def
  apply (intro rw_write rw_bind_parse)
  apply (rule rw_bind_keeps)
   apply (intro keeps_intros)
  apply (intro rw_bind_parse)
  apply (rule rw_keeps)
  apply (intro keeps_intros)
  done

lemma rw_summary_body:
  "reads_within (summary_body d t now)
     (([log_path d ''direct'' ''overhead'' t, log_path d ''pgbouncer'' ''overhead'' t] @
       [log_path d ''direct'' ''concurrent'' t, log_path d ''pgbouncer'' ''concurrent'' t] @
       [log_path d ''direct'' ''extreme'' t, log_path d ''pgbouncer'' ''extreme'' t] @ []) @
      [log_path d ''direct'' ''overhead'' t, log_path d ''pgbouncer'' ''overhead'' t,
       log_path d ''direct'' ''extreme'' t, log_path d ''pgbouncer'' ''extreme'' t] @ [])"
  unfolding summary_body_def tests_def for_each.simps
  apply (intro rw_write)
  apply (rule rw_bind)
   apply (intro rw_bind rw_test_section)
   apply (rule rw_keeps, rule keeps_return)
  apply (rule rw_bind)
   apply (rule rw_key_findings)
  apply (rule rw_keeps)
  apply (intro keeps_intros)
  done

lemma rw_main: "reads_within (analyze_results_main argv now) (simple_reads (argv ! 1) (argv ! 2))"
proof (cases "length argv < 3")
  case True
  have "reads_within (bind_io (py_print ''Usage: python3 analyze_results.py <results_dir> <timestamp>'')
          (\<lambda>_. lift_err (Inl (SystemExit 1)) :: world \<Rightarrow> (error + unit) \<times> world)) []"
    by (intro rw_keeps keeps_intros)
  with True show ?thesis
    by (auto simp: analyze_results_main_def intro: rw_mono)
next
  case False
  have "reads_within
          (bind_io (with_open_w (summary_path (argv ! 1) (argv ! 2)) (summary_body (argv ! 1) (argv ! 2) now)) (\<lambda>_.
           bind_io (py_print (''Analysis complete! Summary saved to: '' @ summary_path (argv ! 1) (argv ! 2))) (\<lambda>_.
           bind_io (read_file (summary_path (argv ! 1) (argv ! 2))) (\<lambda>text.
           py_print (NL @ text)))))
          (simple_reads (argv ! 1) (argv ! 2))"
    apply (rule rw_mono)
     apply (rule rw_bind)
      apply (rule keeps_opened_with_open_w)
      apply (rule rw_summary_body)
     apply (rule rw_bind_keeps)
      apply (rule keeps_py_print_opened)
     apply (rule rw_bind)
      apply (rule rw_read_file)
     apply (rule rw_keeps)
     apply (rule keeps_py_print_opened)
    apply (simp add: simple_reads_def)
    done
  with False show ?thesis by (simp add: analyze_results_main_def Let_def)
qed

lemma rw_parse_all:
  "reads_within (parse_all ts) (concat (map (\<lambda>(n, f1, f2). [f1, f2]) ts))"
proof (induction ts rule: parse_all.induct)
  case 1
  show ?case by (simp add: rw_keeps keeps_return)
next
  case (2 test_name direct_file pgbouncer_file ts)
  have "reads_within (parse_all ((test_name, direct_file, pgbouncer_file) # ts))
          (direct_file # pgbouncer_file # (concat (map (\<lambda>(n, f1, f2). [f1, f2]) ts) @ []))"
    unfolding parse_all.simps
    apply (intro rw_bind_parse_detailed)
    apply (rule rw_bind)
     apply (rule 2)
    apply (rule rw_keeps, rule keeps_return)
    done
  then show ?case by simp
qed

lemma rw_detailed_body: "reads_within (detailed_body d t now) (detailed_reads d t)"
proof -
  have "reads_within (detailed_body d t now)
          (concat (map (\<lambda>(n, f1, f2). [f1, f2]) (tests d t)) @ [])"
    unfolding detailed_body_def
    apply (intro rw_write)
    apply (rule rw_bind)
     apply (rule rw_parse_all)
    apply (rule rw_keeps)
    apply (intro keeps_intros)
    done
  then show ?thesis by (simp add: tests_def detailed_reads_def)
qed

lemma rw_main_improved:
  "reads_within (analyze_results_improved_main argv now) (detailed_reads (argv ! 1) (argv ! 2))"
proof (cases "length argv < 3")
  case True
  have "reads_within (bind_io (py_print ''Usage: python3 analyze_results_improved.py <results_dir> <timestamp>'')
          (\<lambda>_. lift_err (Inl (SystemExit 1)) :: world \<Rightarrow> (error + unit) \<times> world)) []"
    by (intro rw_keeps keeps_intros)
  with True show ?thesis
    by (auto simp: analyze_results_improved_main_def intro: rw_mono)
next
  case False
  have "reads_within
          (bind_io (with_open_w (detailed_path (argv ! 1) (argv ! 2)) (detailed_body (argv ! 1) (argv ! 2) now)) (\<lambda>_.
           py_print (''Detailed analysis complete! Report saved to: '' @ detailed_path (argv ! 1) (argv ! 2))))
          (detailed_reads (argv ! 1) (argv ! 2) @ [])"
    apply (rule rw_bind)
     apply (rule keeps_opened_with_open_w)
     apply (rule rw_detailed_body)
    apply (rule rw_keeps)
    apply (rule keeps_py_print_opened)
    done
  with False show ?thesis by (simp add: analyze_results_improved_main_def Let_def)
qed

lemma subseq_keeps_distinct: "subseq ps L \<Longrightarrow> distinct L \<Longrightarrow> distinct ps"
  by (induction rule: list_emb.induct) (auto dest: list_emb_set)

lemma subseq_count_le: "subseq ps L \<Longrightarrow> count_list ps p \<le> count_list L p"
  by (induction rule: list_emb.induct) auto

lemma log_path_eq_iff:
  "log_path d s1 c1 t = log_path d s2 c2 t \<longleftrightarrow> s1 @ ''_'' @ c1 = s2 @ ''_'' @ c2"
  by (simp add: log_path_def)

lemma distinct_detailed_reads: "distinct (detailed_reads d t)"
  by (simp add: detailed_reads_def log_path_eq_iff)

lemma log_path_neq_summary_path: "log_path d s c t \<noteq> summary_path d t'"
proof
  assume "log_path d s c t = summary_path d t'"
  then have "rev (log_path d s c t) = rev (summary_path d t')" by simp
  then show False by (simp add: log_path_def summary_path_def)
qed

subsection \<open>How often a log is read\<close>

text \<open>
  Claim C3, as the code has it. In a run of the detailed script the files opened for
  reading are a subsequence of the six logs, each at most once. In a run of the simple
  script they are a subsequence of \<open>simple_reads\<close>: no file more than twice, the two logs of
  the concurrent test at most once.
\<close>
theorem log_reads_per_run:
  "(\<exists>ps. opened (snd (analyze_results_improved_main argv now w)) = opened w @ ps \<and>
         subseq ps (detailed_reads (argv ! 1) (argv ! 2)) \<and> distinct ps) \<and>
   (\<exists>ps. opened (snd (analyze_results_main argv now w)) = opened w @ ps \<and>
         subseq ps (simple_reads (argv ! 1) (argv ! 2)) \<and>
         (\<forall>p. count_list ps p \<le> 2) \<and>
         count_list ps (log_path (argv ! 1) ''direct'' ''concurrent'' (argv ! 2)) \<le> 1 \<and>
         count_list ps (log_path (argv ! 1) ''pgbouncer'' ''concurrent'' (argv ! 2)) \<le> 1)"
proof
  from rw_main_improved[of argv now] obtain ps where
    ps: "opened (snd (analyze_results_improved_main argv now w)) = opened w @ ps"
        "subseq ps (detailed_reads (argv ! 1) (argv ! 2))"
    unfolding reads_within_def by blast
  from ps(2) distinct_detailed_reads have "distinct ps" by (rule subseq_keeps_distinct)
  with ps show "\<exists>ps. opened (snd (analyze_results_improved_main argv now w)) = opened w @ ps \<and>
         subseq ps (detailed_reads (argv ! 1) (argv ! 2)) \<and> distinct ps"
    by blast
next
  from rw_main[of argv now] obtain ps where
    ps: "opened (snd (analyze_results_main argv now w)) = opened w @ ps"
        "subseq ps (simple_reads (argv ! 1) (argv ! 2))"
    unfolding reads_within_def by blast
  have c: "count_list ps p \<le> count_list (simple_reads (argv ! 1) (argv ! 2)) p" for p
    using ps(2) by (rule subseq_count_le)
  have two: "count_list (simple_reads d t) p \<le> 2" for d t p
    by (auto simp: simple_reads_def log_path_eq_iff log_path_neq_summary_path)
  have one: "count_list (simple_reads d t) (log_path d ''direct'' ''concurrent'' t) \<le> 1"
            "count_list (simple_reads d t) (log_path d ''pgbouncer'' ''concurrent'' t) \<le> 1" for d t
    by (simp_all add: simple_reads_def log_path_eq_iff log_path_neq_summary_path[symmetric])
  from ps c two one show "\<exists>ps. opened (snd (analyze_results_main argv now w)) = opened w @ ps \<and>
         subseq ps (simple_reads (argv ! 1) (argv ! 2)) \<and>
         (\<forall>p. count_list ps p \<le> 2) \<and>
         count_list ps (log_path (argv ! 1) ''direct'' ''concurrent'' (argv ! 2)) \<le> 1 \<and>
         count_list ps (log_path (argv ! 1) ''pgbouncer'' ''concurrent'' (argv ! 2)) \<le> 1"
    by (meson order_trans)
qed

text \<open>
  Claim C3 as stated, every log at most once in every run, fails for the simple script:
  with only the direct overhead log present (and reporting a failure) the run completes
  and has opened that log twice.
\<close>

theorem simple_script_reads_twice:
  "fst (analyze_results_main [''analyze_results.py'', ''d'', ''t''] ''now''
     (fresh_world [''d/direct_overhead_t.log'' \<mapsto> ''FATAL: too many clients''])) = Inr () \<and>
   count_list
     (opened (snd (analyze_results_main [''analyze_results.py'', ''d'', ''t''] ''now''
        (fresh_world [''d/direct_overhead_t.log'' \<mapsto> ''FATAL: too many clients''])))) 
     ''d/direct_overhead_t.log'' = 2"
  by code_simp


subsection \<open>The ratios of the key findings\<close>

text \<open>
  Claim C1 says that a ratio whose divisor is zero is left out of the report. The loop
  over the tests tests the divisor (lines 87 and 91), the key findings do not (lines 105,
  106 and 110): with two overhead logs that hold no figures and no error keyword both
  throughputs are 0 and the run ends with ZeroDivisionError.
\<close>

theorem key_findings_divides_by_zero:
  "fst (analyze_results_main [''analyze_results.py'', ''d'', ''t''] ''now''
     (fresh_world [''d/direct_overhead_t.log'' \<mapsto> ''starting vacuum...end.'',
                   ''d/pgbouncer_overhead_t.log'' \<mapsto> ''starting vacuum...end.''])) =
   Inl ZeroDivisionError"
  by code_simp

subsection \<open>Rendering of the figures\<close>


























end
